theory Spec2Isabelle
  imports Main "HOL-Library.Word"
begin

section \<open>Standard-library values used by main.go\<close>

subsection \<open>Instants and durations (package time)\<close>

text \<open>
  A \<open>time.Time\<close> is modelled as the number of nanoseconds since the Unix epoch, a
  \<open>time.Duration\<close> as a number of nanoseconds. \<open>time.Now()\<close> is an effect: every
  function below that reads the clock takes the reading as an argument, one argument per
  call of \<open>time.Now()\<close> in the source.
\<close>

type_synonym Time = int
type_synonym Duration = int

definition time_Second :: Duration where
  "time_Second = 1000000000"

definition time_Hour :: Duration where
  "time_Hour = 3600 * time_Second"

definition time_Add :: "Time \<Rightarrow> Duration \<Rightarrow> Time" where
  "time_Add t d = t + d"

definition time_Before :: "Time \<Rightarrow> Time \<Rightarrow> bool" where
  "time_Before t u = (t < u)"

text \<open>\<open>t.Unix()\<close>: whole seconds since the epoch, rounded down.\<close>

definition time_Unix :: "Time \<Rightarrow> int" where
  "time_Unix t = t div time_Second"

subsection \<open>Byte strings of big integers (math/big) and base64 (encoding/base64)\<close>

type_synonym byte = "8 word"

text \<open>
  \<open>(*big.Int).Bytes()\<close>: the absolute value as a big-endian byte slice; the slice of
  zero is empty. \<open>bytes_le\<close> produces the digits least significant first.
\<close>

fun bytes_le :: "nat \<Rightarrow> byte list" where
  "bytes_le n = (if n = 0 then [] else word_of_nat (n mod 256) # bytes_le (n div 256))"

declare bytes_le.simps [simp del]

definition big_Int_Bytes :: "int \<Rightarrow> byte list" where
  "big_Int_Bytes x = rev (bytes_le (nat \<bar>x\<bar>))"


text \<open>The URL-safe alphabet of RFC 4648, \<open>base64.URLEncoding\<close>'s table.\<close>

definition encodeURL :: string where
  "encodeURL = ''ABCDEFGHIJKLMNOPQRSTUVWXYZabcdefghijklmnopqrstuvwxyz0123456789-_''"

definition enc64 :: "nat \<Rightarrow> char" where
  "enc64 i = encodeURL ! (i mod 64)"

text \<open>
  \<open>base64.RawURLEncoding.EncodeToString\<close>: three bytes give four characters; a rest of
  one byte gives two characters and a rest of two bytes gives three; the raw encoding
  appends no padding.
\<close>

fun EncodeToString :: "byte list \<Rightarrow> string" where
  "EncodeToString [] = []"
| "EncodeToString [a] =
     (let v = unat a * 65536
      in [enc64 (v div 262144), enc64 (v div 4096)])"
| "EncodeToString [a, b] =
     (let v = unat a * 65536 + unat b * 256
      in [enc64 (v div 262144), enc64 (v div 4096), enc64 (v div 64)])"
| "EncodeToString (a # b # c # rest) =
     (let v = unat a * 65536 + unat b * 256 + unat c
      in enc64 (v div 262144) # enc64 (v div 4096) # enc64 (v div 64) # enc64 v
           # EncodeToString rest)"




subsection \<open>JSON values (encoding/json)\<close>

datatype json = JNull | JString string | JNumber int | JArray "json list"
  | JObject "(string \<times> json) list"

text \<open>
  A Go slice is \<open>nil\<close> or holds elements; \<open>append\<close> to \<open>nil\<close> allocates.
  \<open>encoding/json\<close> writes a nil slice as \<open>null\<close> and any other slice as an array.
\<close>

type_synonym 'a slice = "'a list option"

definition append_slice :: "'a slice \<Rightarrow> 'a \<Rightarrow> 'a slice" where
  "append_slice s x = (case s of None \<Rightarrow> Some [x] | Some xs \<Rightarrow> Some (xs @ [x]))"

definition marshal_slice :: "('a \<Rightarrow> json) \<Rightarrow> 'a slice \<Rightarrow> json" where
  "marshal_slice f s = (case s of None \<Rightarrow> JNull | Some xs \<Rightarrow> JArray (map f xs))"

section \<open>main.go: data structures\<close>

text \<open>
  \<open>rsa.PublicKey\<close>: the modulus is a \<open>*big.Int\<close>, the exponent a Go \<open>int\<close> (64 bits).
  The pointers \<open>PrivateKey\<close> and \<open>PublicKey\<close> of a \<open>KeyPair\<close> are modelled by the
  values they point to: \<open>generateKeyPair\<close>, the only function that builds a
  \<open>KeyPair\<close>, sets both.
\<close>

record rsa_PublicKey =
  rsa_N :: int
  rsa_E :: "64 word"

record rsa_PrivateKey =
  rsa_Public :: rsa_PublicKey
  rsa_D :: int
  rsa_Primes :: "int list"

record KeyPair =
  Kid :: string
  PrivateKey :: rsa_PrivateKey
  PublicKey :: rsa_PublicKey
  ExpiresAt :: Time

record JWK =
  jwk_Kty :: string
  jwk_Kid :: string
  jwk_Use :: string
  jwk_Alg :: string
  jwk_N :: string
  jwk_E :: string

record JWKS =
  Keys :: "JWK slice"

text \<open>The struct tags of \<open>JWK\<close> and \<open>JWKS\<close> fix the field names of the JSON text.\<close>

definition marshal_JWK :: "JWK \<Rightarrow> json" where
  "marshal_JWK j =
     JObject [(''kty'', JString (jwk_Kty j)), (''kid'', JString (jwk_Kid j)),
              (''use'', JString (jwk_Use j)), (''alg'', JString (jwk_Alg j)),
              (''n'', JString (jwk_N j)), (''e'', JString (jwk_E j))]"

definition marshal_JWKS :: "JWKS \<Rightarrow> json" where
  "marshal_JWKS d = JObject [(''keys'', marshal_slice marshal_JWK (Keys d))]"

text \<open>The package variables \<open>validKey\<close> and \<open>expiredKey\<close>; \<open>None\<close> is the nil pointer.\<close>

record server_state =
  validKey :: "KeyPair option"
  expiredKey :: "KeyPair option"

section \<open>main.go: key generation utilities\<close>

type_synonym error = string

text \<open>
  \<open>generateKeyPair\<close> draws from \<open>rand.Reader\<close> twice: \<open>rsa.GenerateKey\<close> and
  \<open>uuid.New\<close>. Both are arguments here, reading and advancing an entropy state
  \<open>'g\<close>. A Go result \<open>(*KeyPair, error)\<close> is a pair of options.
\<close>

definition generateKeyPair ::
  "('g \<Rightarrow> nat \<Rightarrow> (error + rsa_PrivateKey) \<times> 'g) \<Rightarrow> ('g \<Rightarrow> string \<times> 'g) \<Rightarrow>
   Time \<Rightarrow> 'g \<Rightarrow> (KeyPair option \<times> error option) \<times> 'g" where
  "generateKeyPair rsa_GenerateKey uuid_New expiresAt g =
     (case rsa_GenerateKey g 2048 of
        (Inl err, g1) \<Rightarrow> ((None, Some err), g1)
      | (Inr key, g1) \<Rightarrow>
          (case uuid_New g1 of
             (u, g2) \<Rightarrow>
               ((Some \<lparr>Kid = u, PrivateKey = key, PublicKey = rsa_Public key,
                        ExpiresAt = expiresAt\<rparr>, None), g2)))"

definition toJWK :: "KeyPair \<Rightarrow> JWK" where
  "toJWK kp =
     (let n = EncodeToString (big_Int_Bytes (rsa_N (PublicKey kp)));
          e = EncodeToString (big_Int_Bytes (sint (rsa_E (PublicKey kp))))
      in \<lparr>jwk_Kty = ''RSA'', jwk_Kid = Kid kp, jwk_Use = ''sig'', jwk_Alg = ''RS256'',
          jwk_N = n, jwk_E = e\<rparr>)"

section \<open>main.go: HTTP handlers\<close>

text \<open>
  What a handler writes to the \<open>http.ResponseWriter\<close>: the status code and the body,
  which is either the message of \<open>http.Error\<close> or the JSON value handed to the
  encoder. Response headers are left out.
\<close>

datatype body = ErrorText string | JsonDoc json

record Response =
  Code :: nat
  Body :: body

record Request =
  Method :: string
  Query :: "string \<Rightarrow> string list option"

text \<open>\<open>url.Values.Get\<close>: the first value of the key, the empty string when there is none.\<close>

definition Values_Get :: "(string \<Rightarrow> string list option) \<Rightarrow> string \<Rightarrow> string" where
  "Values_Get v key = (case v key of None \<Rightarrow> [] | Some [] \<Rightarrow> [] | Some (x # _) \<Rightarrow> x)"

definition http_Error :: "string \<Rightarrow> nat \<Rightarrow> Response" where
  "http_Error msg code = \<lparr>Code = code, Body = ErrorText msg\<rparr>"

text \<open>
  The handlers read the package variables and never assign them; they return the state
  they were given next to the response.
\<close>

definition jwksHandler :: "Time \<Rightarrow> Request \<Rightarrow> server_state \<Rightarrow> Response \<times> server_state" where
  "jwksHandler now r st =
     (if Method r \<noteq> ''GET'' then (http_Error ''Method not allowed'' 405, st)
      else
        let keys = None;
            keys = (case validKey st of
                      Some vk \<Rightarrow>
                        if time_Before now (ExpiresAt vk) then append_slice keys (toJWK vk)
                        else keys
                    | None \<Rightarrow> keys)
        in (\<lparr>Code = 200, Body = JsonDoc (marshal_JWKS \<lparr>Keys = keys\<rparr>)\<rparr>, st))"

text \<open>
  A token of \<open>golang-jwt\<close>: \<open>jwt.NewWithClaims\<close> fills the header with the type and the
  algorithm of the signing method. The values of \<open>jwt.MapClaims\<close> are strings or integers.
\<close>

datatype claim = CStr string | CInt int

record jwt_Token =
  tok_Method :: string
  tok_Header :: "string \<Rightarrow> string option"
  tok_Claims :: "string \<Rightarrow> claim option"

definition jwt_SigningMethodRS256 :: string where
  "jwt_SigningMethodRS256 = ''RS256''"

definition jwt_NewWithClaims :: "string \<Rightarrow> (string \<Rightarrow> claim option) \<Rightarrow> jwt_Token" where
  "jwt_NewWithClaims method claims =
     \<lparr>tok_Method = method,
      tok_Header = [''typ'' \<mapsto> ''JWT'', ''alg'' \<mapsto> method],
      tok_Claims = claims\<rparr>"

text \<open>
  The package variable \<open>signFunc\<close>, the external signing capability, is an argument of
  the handler; its Go result \<open>(string, error)\<close> is a pair.
\<close>

type_synonym signer = "rsa_PrivateKey \<Rightarrow> string \<Rightarrow> jwt_Token \<Rightarrow> string \<times> error option"

text \<open>
  Lines 87 to 96 of \<open>authHandler\<close>: the key to sign with and the expiry claim, or
  \<open>None\<close> where the handler answers "No keys available". \<open>now\<close> is the clock reading
  of line 92.
\<close>

definition keyToUse :: "Time \<Rightarrow> Request \<Rightarrow> server_state \<Rightarrow> (KeyPair \<times> int) option" where
  "keyToUse now r st =
     (if Values_Get (Query r) ''expired'' \<noteq> [] \<and> expiredKey st \<noteq> None then
        Some (the (expiredKey st), time_Unix (ExpiresAt (the (expiredKey st))))
      else if validKey st \<noteq> None then
        Some (the (validKey st), time_Unix (time_Add now time_Hour))
      else None)"

text \<open>Lines 98 to 100: the claims and the token; \<open>now'\<close> is the clock reading of line 98.\<close>

definition newToken :: "Time \<Rightarrow> KeyPair \<Rightarrow> int \<Rightarrow> jwt_Token" where
  "newToken now' k exp =
     (let claims = [''sub'' \<mapsto> CStr ''user123'', ''exp'' \<mapsto> CInt exp,
                    ''iat'' \<mapsto> CInt (time_Unix now')];
          token = jwt_NewWithClaims jwt_SigningMethodRS256 claims
      in token\<lparr>tok_Header := (tok_Header token)(''kid'' \<mapsto> Kid k)\<rparr>)"

definition authHandler ::
  "signer \<Rightarrow> Time \<Rightarrow> Time \<Rightarrow> Request \<Rightarrow> server_state \<Rightarrow> Response \<times> server_state" where
  "authHandler signFunc now now' r st =
     (if Method r \<noteq> ''POST'' then (http_Error ''Method not allowed'' 405, st)
      else
        case keyToUse now r st of
          None \<Rightarrow> (http_Error ''No keys available'' 500, st)
        | Some (k, exp) \<Rightarrow>
            (case signFunc (PrivateKey k) jwt_SigningMethodRS256 (newToken now' k exp) of
               (tokenString, Some err) \<Rightarrow> (http_Error ''Failed to sign token'' 500, st)
             | (tokenString, None) \<Rightarrow>
                 (\<lparr>Code = 200, Body = JsonDoc (JObject [(''token'', JString tokenString)])\<rparr>,
                  st)))"

section \<open>main.go: server initialization\<close>

text \<open>
  \<open>initKeys\<close> calls the package variable \<open>generateKeyPairFunc\<close>, an argument here,
  with the entropy state threaded through both calls. \<open>t0\<close> and \<open>t1\<close> are the clock
  readings of lines 113 and 116. Each call's pointer is stored whatever its error is.
\<close>

definition initKeys ::
  "(Time \<Rightarrow> 'g \<Rightarrow> (KeyPair option \<times> error option) \<times> 'g) \<Rightarrow> Time \<Rightarrow> Time \<Rightarrow>
   server_state \<Rightarrow> 'g \<Rightarrow> error option \<times> server_state \<times> 'g" where
  "initKeys generateKeyPairFunc t0 t1 st g =
     (case generateKeyPairFunc (time_Add t0 (24 * time_Hour)) g of
        ((kp, err), g1) \<Rightarrow>
          let st1 = st\<lparr>validKey := kp\<rparr>
          in if err \<noteq> None then (err, st1, g1)
             else
               (case generateKeyPairFunc (time_Add t1 (- time_Hour)) g1 of
                  ((kp2, err2), g2) \<Rightarrow> (err2, st1\<lparr>expiredKey := kp2\<rparr>, g2)))"

section \<open>Vocabulary of the specification\<close>

text \<open>The failures the specification names, as the responses the handler writes.\<close>

definition NoKeyAvailable :: Response where
  "NoKeyAvailable = http_Error ''No keys available'' 500"

definition SigningFailure :: Response where
  "SigningFailure = http_Error ''Failed to sign token'' 500"

text \<open>The token a response carries: the field \<open>token\<close> of a 200 answer.\<close>

definition token_of :: "Response \<Rightarrow> string option" where
  "token_of resp =
     (case Body resp of
        JsonDoc (JObject [(k, JString s)]) \<Rightarrow>
          if Code resp = 200 \<and> k = ''token'' then Some s else None
      | _ \<Rightarrow> None)"

text \<open>The records of the discovery document a response carries.\<close>

definition keys_of :: "Response \<Rightarrow> json option" where
  "keys_of resp =
     (case Body resp of
        JsonDoc (JObject [(k, v)]) \<Rightarrow> if k = ''keys'' then Some v else None
      | _ \<Rightarrow> None)"

text \<open>
  The records of the discovery document a response carries, and whether one of them is a
  record for a given key pair: a record is found by its key identifier.
\<close>

definition records_of :: "Response \<Rightarrow> json list" where
  "records_of resp = (case keys_of resp of Some (JArray rs) \<Rightarrow> rs | _ \<Rightarrow> [])"





text \<open>
  The scenario of an issuance request, as line 89 reads it from the query, and the key and
  token that \<open>authHandler\<close> hands to \<open>signFunc\<close>.
\<close>

datatype scenario = normal | forcedExpiredKey

definition scenario_of :: "Request \<Rightarrow> scenario" where
  "scenario_of r = (if Values_Get (Query r) ''expired'' \<noteq> [] then forcedExpiredKey else normal)"

definition issued :: "Time \<Rightarrow> Time \<Rightarrow> Request \<Rightarrow> server_state \<Rightarrow> (KeyPair \<times> jwt_Token) option" where
  "issued now now' r st =
     map_option (\<lambda>(k, exp). (k, newToken now' k exp)) (keyToUse now r st)"

definition succeeded :: "Response \<times> server_state \<Rightarrow> bool" where
  "succeeded out = (token_of (fst out) \<noteq> None)"

section \<open>Concrete keys, requests and capabilities\<close>

text \<open>
  Two small keys, with the expiry instants \<open>initKeys\<close> gives them when both clock
  readings are ten hours after the epoch.
\<close>

definition key_a :: KeyPair where
  "key_a = \<lparr>Kid = ''kid-a'',
            PrivateKey = \<lparr>rsa_Public = \<lparr>rsa_N = 3233, rsa_E = 65537\<rparr>, rsa_D = 2753,
                          rsa_Primes = [61, 53]\<rparr>,
            PublicKey = \<lparr>rsa_N = 3233, rsa_E = 65537\<rparr>,
            ExpiresAt = 122400000000000\<rparr>"

definition key_e :: KeyPair where
  "key_e = \<lparr>Kid = ''kid-e'',
            PrivateKey = \<lparr>rsa_Public = \<lparr>rsa_N = 2773, rsa_E = 17\<rparr>, rsa_D = 157,
                          rsa_Primes = [47, 59]\<rparr>,
            PublicKey = \<lparr>rsa_N = 2773, rsa_E = 17\<rparr>,
            ExpiresAt = 32400000000000\<rparr>"

definition post_plain :: Request where
  "post_plain = \<lparr>Method = ''POST'', Query = Map.empty\<rparr>"

definition post_expired :: Request where
  "post_expired = \<lparr>Method = ''POST'', Query = [''expired'' \<mapsto> [''true'']]\<rparr>"

definition post_expired_1 :: Request where
  "post_expired_1 = \<lparr>Method = ''POST'', Query = [''expired'' \<mapsto> [''1'']]\<rparr>"

definition post_empty :: Request where
  "post_empty = \<lparr>Method = ''POST'', Query = [''expired'' \<mapsto> [[]]]\<rparr>"

definition st_both :: server_state where
  "st_both = \<lparr>validKey = Some key_a, expiredKey = Some key_e\<rparr>"

definition st_none :: server_state where
  "st_none = \<lparr>validKey = None, expiredKey = None\<rparr>"

definition st_active_only :: server_state where
  "st_active_only = \<lparr>validKey = Some key_a, expiredKey = None\<rparr>"

definition get_jwks :: Request where
  "get_jwks = \<lparr>Method = ''GET'', Query = Map.empty\<rparr>"

text \<open>A signer that answers the header's key identifier, and one that always fails.\<close>

definition sign_kid :: signer where
  "sign_kid pk m tok = (case tok_Header tok ''kid'' of Some k \<Rightarrow> k | None \<Rightarrow> [], None)"

definition sign_fail :: signer where
  "sign_fail pk m tok = ([], Some ''sign failure'')"

text \<open>An entropy source over a counter: the first two RSA keys and identifiers differ.\<close>

definition rsa_gen :: "nat \<Rightarrow> nat \<Rightarrow> (error + rsa_PrivateKey) \<times> nat" where
  "rsa_gen g bits =
     (Inr (if g = 0 then PrivateKey key_a else PrivateKey key_e), Suc g)"

definition uuid_gen :: "nat \<Rightarrow> string \<times> nat" where
  "uuid_gen g = (if g = 1 then ''kid-a'' else ''kid-e'', Suc g)"

definition rsa_broken :: "nat \<Rightarrow> nat \<Rightarrow> (error + rsa_PrivateKey) \<times> nat" where
  "rsa_broken g bits = (Inl ''generation failure'', Suc g)"

definition rsa_second_fails :: "nat \<Rightarrow> nat \<Rightarrow> (error + rsa_PrivateKey) \<times> nat" where
  "rsa_second_fails g bits =
     (if g = 0 then Inr (PrivateKey key_a) else Inl ''generation failure'', Suc g)"

text \<open>Ten hours after the epoch.\<close>

definition t_init :: Time where
  "t_init = 36000000000000"

section \<open>Issuance: helper lemmas\<close>

lemmas fixtures = st_both_def st_none_def st_active_only_def key_a_def key_e_def
  post_plain_def post_expired_def post_expired_1_def post_empty_def get_jwks_def
  sign_kid_def sign_fail_def

lemmas handler_defs = Values_Get_def authHandler_def keyToUse_def newToken_def
  jwt_NewWithClaims_def token_of_def

lemma token_of_http_Error: "token_of (http_Error msg code) = None"
  by (simp add: token_of_def http_Error_def)

lemma token_of_ok:
  "token_of \<lparr>Code = 200, Body = JsonDoc (JObject [(''token'', JString s)])\<rparr> = Some s"
  by (simp add: token_of_def)

lemma authHandler_issued:
  "Method r = ''POST'' \<Longrightarrow>
   authHandler signFunc now now' r st =
     (case issued now now' r st of
        None \<Rightarrow> (NoKeyAvailable, st)
      | Some (k, tok) \<Rightarrow>
          (case signFunc (PrivateKey k) jwt_SigningMethodRS256 tok of
             (s, Some err) \<Rightarrow> (SigningFailure, st)
           | (s, None) \<Rightarrow>
               (\<lparr>Code = 200, Body = JsonDoc (JObject [(''token'', JString s)])\<rparr>, st)))"
  by (simp add: authHandler_def issued_def NoKeyAvailable_def SigningFailure_def
      split: option.splits prod.splits)

lemma keyToUse_cases:
  "keyToUse now r st =
     (case scenario_of r of
        forcedExpiredKey \<Rightarrow>
          (case expiredKey st of
             Some ek \<Rightarrow> Some (ek, time_Unix (ExpiresAt ek))
           | None \<Rightarrow> map_option (\<lambda>vk. (vk, time_Unix (time_Add now time_Hour))) (validKey st))
      | normal \<Rightarrow> map_option (\<lambda>vk. (vk, time_Unix (time_Add now time_Hour))) (validKey st))"
  by (auto simp: keyToUse_def scenario_of_def split: option.splits)

lemma succeeded_issued:
  assumes "Method r = ''POST''" "succeeded (authHandler signFunc now now' r st)"
  shows "\<exists>k tok s. issued now now' r st = Some (k, tok) \<and>
           signFunc (PrivateKey k) jwt_SigningMethodRS256 tok = (s, None) \<and>
           token_of (fst (authHandler signFunc now now' r st)) = Some s"
  using assms
  by (auto simp: authHandler_issued succeeded_def NoKeyAvailable_def SigningFailure_def
      token_of_http_Error token_of_ok split: option.splits prod.splits)

lemma Unix_Add_Hour: "time_Unix (time_Add now time_Hour) = time_Unix now + 3600"
  by (simp add: time_Unix_def time_Add_def time_Hour_def time_Second_def)

lemma scenario_fixtures:
  "scenario_of post_plain = normal" "scenario_of post_expired = forcedExpiredKey"
  by (simp_all add: post_plain_def post_expired_def scenario_of_def Values_Get_def)

section \<open>Issuance: key selection\<close>

text \<open>
  C2, as the specification states it: in the forcedExpiredKey scenario an absent expired
  key makes issuance fail with NoKeyAvailable, whether or not an active key is present.
  The handler does otherwise: with the expired key absent and the active key present, a
  request with \<open>expired=true\<close> is answered with a token signed by the active key.
\<close>

theorem C2_fallback_counterexample:
  "Method post_expired = ''POST'' \<and> scenario_of post_expired = forcedExpiredKey \<and>
   expiredKey st_active_only = None \<and>
   fst (authHandler sign_kid 0 0 post_expired st_active_only) \<noteq> NoKeyAvailable \<and>
   token_of (fst (authHandler sign_kid 0 0 post_expired st_active_only)) = Some ''kid-a''"
  by (simp add: fixtures handler_defs scenario_of_def NoKeyAvailable_def http_Error_def)

text \<open>
  C2, amended: in the forcedExpiredKey scenario the expired key is selected for signing
  when it is present; when it is absent the handler falls back to the active key with the
  expiry claim of the normal scenario; the request fails with NoKeyAvailable, producing no
  token, exactly when both keys are absent.
\<close>

theorem C2_forced_key_selection:
  assumes "Method r = ''POST''" and "scenario_of r = forcedExpiredKey"
  shows "(expiredKey st = Some ek \<longrightarrow>
            issued now now' r st = Some (ek, newToken now' ek (time_Unix (ExpiresAt ek)))) \<and>
         (expiredKey st = None \<and> validKey st = Some vk \<longrightarrow>
            issued now now' r st
              = Some (vk, newToken now' vk (time_Unix (time_Add now time_Hour)))) \<and>
         (fst (authHandler signFunc now now' r st) = NoKeyAvailable \<longleftrightarrow>
            expiredKey st = None \<and> validKey st = None) \<and>
         \<not> succeeded (NoKeyAvailable, st)"
proof -
  have sel: "expiredKey st = Some ek \<longrightarrow>
      issued now now' r st = Some (ek, newToken now' ek (time_Unix (ExpiresAt ek)))"
    using assms(2) by (simp add: issued_def keyToUse_cases)
  have fall: "expiredKey st = None \<and> validKey st = Some vk \<longrightarrow>
      issued now now' r st = Some (vk, newToken now' vk (time_Unix (time_Add now time_Hour)))"
    using assms(2) by (simp add: issued_def keyToUse_cases)
  have nokey: "fst (authHandler signFunc now now' r st) = NoKeyAvailable"
    if "expiredKey st = None \<and> validKey st = None"
    using that assms by (simp add: authHandler_issued issued_def keyToUse_cases)
  have only: "expiredKey st = None \<and> validKey st = None"
    if a: "fst (authHandler signFunc now now' r st) = NoKeyAvailable"
  proof (rule ccontr)
    assume "\<not> ?thesis"
    then obtain k tok where "issued now now' r st = Some (k, tok)"
      using assms(2)
      by (cases "expiredKey st"; cases "validKey st") (auto simp: issued_def keyToUse_cases)
    with a assms(1) show False
      by (auto simp: authHandler_issued NoKeyAvailable_def SigningFailure_def http_Error_def
          split: prod.splits option.splits)
  qed
  have "\<not> succeeded (NoKeyAvailable, st)"
    by (simp add: succeeded_def NoKeyAvailable_def token_of_http_Error)
  with sel fall nokey only show ?thesis by blast
qed

theorem C2_forced_key_selection_witness:
  "Method post_expired = ''POST'' \<and> scenario_of post_expired = forcedExpiredKey \<and>
   expiredKey st_both = Some key_e \<and>
   issued 0 0 post_expired st_both
     = Some (key_e, newToken 0 key_e (time_Unix (ExpiresAt key_e))) \<and>
   expiredKey st_active_only = None \<and> validKey st_active_only = Some key_a \<and>
   issued 0 0 post_expired st_active_only
     = Some (key_a, newToken 0 key_a (time_Unix (time_Add 0 time_Hour))) \<and>
   expiredKey st_none = None \<and> validKey st_none = None \<and>
   fst (authHandler sign_kid 0 0 post_expired st_none) = NoKeyAvailable"
proof -
  have p: "Method post_expired = ''POST''" by (simp add: post_expired_def)
  have f: "scenario_of post_expired = forcedExpiredKey" by (rule scenario_fixtures)
  have b: "expiredKey st_both = Some key_e" by (simp add: st_both_def)
  have a: "expiredKey st_active_only = None \<and> validKey st_active_only = Some key_a"
    by (simp add: st_active_only_def)
  have n: "expiredKey st_none = None \<and> validKey st_none = None" by (simp add: st_none_def)
  show ?thesis
    using p f b a n C2_forced_key_selection [OF p f, of st_both key_e 0 0 key_a sign_kid]
      C2_forced_key_selection [OF p f, of st_active_only key_e 0 0 key_a sign_kid]
      C2_forced_key_selection [OF p f, of st_none key_e 0 0 key_a sign_kid]
    by simp
qed

section \<open>Issuance: expiry claim and key identifier\<close>

text \<open>
  C3, as the specification states it: every successful issuance in the forcedExpiredKey
  scenario carries the expired key's expiresAt as its expiry claim. With the expired key
  absent the handler still succeeds on the active key, and the expiry claim is one hour
  after \<open>now\<close> (3600 at \<open>now = 0\<close>): there is no expired key whose expiry it could be.
\<close>

theorem C3_expiry_claim_counterexample:
  "Method post_expired = ''POST'' \<and> scenario_of post_expired = forcedExpiredKey \<and>
   succeeded (authHandler sign_kid 0 0 post_expired st_active_only) \<and>
   expiredKey st_active_only = None \<and>
   map_option (\<lambda>(k, tok). tok_Claims tok ''exp'') (issued 0 0 post_expired st_active_only)
     = Some (Some (CInt 3600))"
  by (simp add: fixtures handler_defs scenario_of_def succeeded_def issued_def
      time_Unix_def time_Add_def time_Hour_def time_Second_def)

text \<open>
  C3, amended: for every successful issuance the expiry claim of the signed token is the
  expired key's expiresAt (in Unix seconds) when the scenario is forcedExpiredKey and the
  expired key is present, and \<open>now\<close> plus one hour (in Unix seconds, that is the Unix
  time of \<open>now\<close> plus 3600) otherwise: in the normal scenario, and in the
  forcedExpiredKey scenario when the handler falls back to the active key.
\<close>

theorem C3_expiry_claim:
  assumes "Method r = ''POST''" and "succeeded (authHandler signFunc now now' r st)"
  shows "\<exists>k tok. issued now now' r st = Some (k, tok) \<and>
           token_of (fst (authHandler signFunc now now' r st))
             = Some (fst (signFunc (PrivateKey k) jwt_SigningMethodRS256 tok)) \<and>
           tok_Claims tok ''exp'' =
             Some (CInt (case (scenario_of r, expiredKey st) of
                           (forcedExpiredKey, Some ek) \<Rightarrow> time_Unix (ExpiresAt ek)
                         | _ \<Rightarrow> time_Unix (time_Add now time_Hour))) \<and>
           time_Unix (time_Add now time_Hour) = time_Unix now + 3600"
proof -
  from succeeded_issued [OF assms]
  obtain k tok s where i: "issued now now' r st = Some (k, tok)"
    and s: "signFunc (PrivateKey k) jwt_SigningMethodRS256 tok = (s, None)"
    and t: "token_of (fst (authHandler signFunc now now' r st)) = Some s"
    by blast
  from i obtain exp where k: "keyToUse now r st = Some (k, exp)"
    and tok: "tok = newToken now' k exp"
    by (auto simp: issued_def)
  have "tok_Claims tok ''exp'' = Some (CInt exp)"
    by (simp add: tok newToken_def jwt_NewWithClaims_def)
  moreover have "exp = (case (scenario_of r, expiredKey st) of
                           (forcedExpiredKey, Some ek) \<Rightarrow> time_Unix (ExpiresAt ek)
                         | _ \<Rightarrow> time_Unix (time_Add now time_Hour))"
    using k by (auto simp: keyToUse_cases split: scenario.splits option.splits)
  ultimately show ?thesis using i s t by (simp add: Unix_Add_Hour)
qed

theorem C3_expiry_claim_witness:
  "Method post_plain = ''POST'' \<and>
   succeeded (authHandler sign_kid 7200000000000 7200000000001 post_plain st_both) \<and>
   (\<exists>k tok. issued 7200000000000 7200000000001 post_plain st_both = Some (k, tok) \<and>
       tok_Claims tok ''exp'' = Some (CInt 10800)) \<and>
   Method post_expired = ''POST'' \<and>
   succeeded (authHandler sign_kid 7200000000000 7200000000001 post_expired st_both) \<and>
   (\<exists>k tok. issued 7200000000000 7200000000001 post_expired st_both = Some (k, tok) \<and>
       tok_Claims tok ''exp'' = Some (CInt 32400))"
proof -
  have p1: "Method post_plain = ''POST''" and p2: "Method post_expired = ''POST''"
    by (simp_all add: post_plain_def post_expired_def)
  have s1: "succeeded (authHandler sign_kid 7200000000000 7200000000001 post_plain st_both)"
    by (simp add: fixtures handler_defs succeeded_def)
  have s2: "succeeded (authHandler sign_kid 7200000000000 7200000000001 post_expired st_both)"
    by (simp add: fixtures handler_defs succeeded_def)
  have x: "expiredKey st_both = Some key_e" "time_Unix (ExpiresAt key_e) = 32400"
      "time_Unix 7200000000000 = 7200"
    by (simp_all add: st_both_def key_e_def time_Unix_def time_Second_def)
  show ?thesis
    using p1 p2 s1 s2 C3_expiry_claim [OF p1 s1] C3_expiry_claim [OF p2 s2]
    by (simp add: scenario_fixtures x) metis
qed

text \<open>
  C4, as the specification states it: every successful issuance in the forcedExpiredKey
  scenario carries the expired key's identifier in the token header. With the expired key
  absent the handler succeeds on the active key and the header carries the active key's
  identifier.
\<close>

theorem C4_header_kid_counterexample:
  "Method post_expired = ''POST'' \<and> scenario_of post_expired = forcedExpiredKey \<and>
   succeeded (authHandler sign_kid 0 0 post_expired st_active_only) \<and>
   expiredKey st_active_only = None \<and> validKey st_active_only = Some key_a \<and>
   map_option (\<lambda>(k, tok). tok_Header tok ''kid'') (issued 0 0 post_expired st_active_only)
     = Some (Some (Kid key_a))"
  by (simp add: fixtures handler_defs scenario_of_def succeeded_def issued_def)

text \<open>
  C4, amended: for every successful issuance the header of the signed token carries the
  identifier of the key selected for signing, whose private half is the one handed to the
  signing capability; that key is the expired key when the scenario is forcedExpiredKey
  and the expired key is present, and the active key otherwise.
\<close>

theorem C4_header_kid:
  assumes "Method r = ''POST''" and "succeeded (authHandler signFunc now now' r st)"
  shows "\<exists>k tok. issued now now' r st = Some (k, tok) \<and>
           token_of (fst (authHandler signFunc now now' r st))
             = Some (fst (signFunc (PrivateKey k) jwt_SigningMethodRS256 tok)) \<and>
           tok_Header tok ''kid'' = Some (Kid k) \<and>
           Some k = (case (scenario_of r, expiredKey st) of
                       (forcedExpiredKey, Some ek) \<Rightarrow> Some ek
                     | _ \<Rightarrow> validKey st)"
proof -
  from succeeded_issued [OF assms]
  obtain k tok s where i: "issued now now' r st = Some (k, tok)"
    and s: "signFunc (PrivateKey k) jwt_SigningMethodRS256 tok = (s, None)"
    and t: "token_of (fst (authHandler signFunc now now' r st)) = Some s"
    by blast
  from i obtain exp where k: "keyToUse now r st = Some (k, exp)"
    and tok: "tok = newToken now' k exp"
    by (auto simp: issued_def)
  have hdr: "tok_Header tok ''kid'' = Some (Kid k)"
    by (simp add: tok newToken_def jwt_NewWithClaims_def)
  have "Some k = (case (scenario_of r, expiredKey st) of
                       (forcedExpiredKey, Some ek) \<Rightarrow> Some ek
                     | _ \<Rightarrow> validKey st)"
  proof (cases "scenario_of r")
    case normal
    with k show ?thesis by (auto simp: keyToUse_cases)
  next
    case forcedExpiredKey
    with k show ?thesis by (cases "expiredKey st") (auto simp: keyToUse_cases)
  qed
  with hdr i s t show ?thesis by simp
qed

theorem C4_header_kid_witness:
  "Method post_plain = ''POST'' \<and> succeeded (authHandler sign_kid 5 6 post_plain st_both) \<and>
   token_of (fst (authHandler sign_kid 5 6 post_plain st_both)) = Some ''kid-a'' \<and>
   Method post_expired = ''POST'' \<and>
   succeeded (authHandler sign_kid 5 6 post_expired st_both) \<and>
   token_of (fst (authHandler sign_kid 5 6 post_expired st_both)) = Some ''kid-e''"
proof -
  have p1: "Method post_plain = ''POST''" and p2: "Method post_expired = ''POST''"
    by (simp_all add: post_plain_def post_expired_def)
  have s1: "succeeded (authHandler sign_kid 5 6 post_plain st_both)"
    by (simp add: fixtures handler_defs succeeded_def)
  have s2: "succeeded (authHandler sign_kid 5 6 post_expired st_both)"
    by (simp add: fixtures handler_defs succeeded_def)
  have x: "expiredKey st_both = Some key_e" "validKey st_both = Some key_a"
    "Kid key_a = ''kid-a''" "Kid key_e = ''kid-e''"
    by (simp_all add: st_both_def key_e_def key_a_def)
  show ?thesis
    using p1 p2 s1 s2 C4_header_kid [OF p1 s1] C4_header_kid [OF p2 s2]
    by (auto simp: scenario_fixtures x sign_kid_def)
qed

section \<open>Issuance: failures\<close>

text \<open>
  C7: if both the active key and the expired key are unset, every issuance request (any
  query, any signing capability, any clock reading) is answered with NoKeyAvailable, no
  token is produced and the registry is as it was.
\<close>

theorem C7_no_key_failure:
  assumes "Method r = ''POST''" and "validKey st = None" and "expiredKey st = None"
  shows "authHandler signFunc now now' r st = (NoKeyAvailable, st) \<and>
         \<not> succeeded (authHandler signFunc now now' r st)"
  using assms
  by (simp add: authHandler_def keyToUse_def NoKeyAvailable_def token_of_http_Error
      succeeded_def)

theorem C7_no_key_failure_witness:
  "Method post_expired = ''POST'' \<and> validKey st_none = None \<and> expiredKey st_none = None \<and>
   authHandler sign_kid 0 0 post_expired st_none = (NoKeyAvailable, st_none) \<and>
   \<not> succeeded (authHandler sign_kid 0 0 post_expired st_none)"
  using C7_no_key_failure [of post_expired st_none sign_kid 0 0]
  by (auto simp: post_expired_def st_none_def)

text \<open>
  C8: if the signing capability fails on the token the handler hands to it, the request is
  answered with SigningFailure, no token is produced and the registry is unchanged; the
  same request issued afterwards on the resulting registry with a signing capability that
  works succeeds, whatever the clock readings.
\<close>

theorem C8_signing_failure_isolation:
  assumes "Method r = ''POST''"
    and "issued now now' r st = Some (k, tok)"
    and "snd (signFunc (PrivateKey k) jwt_SigningMethodRS256 tok) = Some err"
    and "\<forall>pk m t. snd (working pk m t) = None"
  shows "authHandler signFunc now now' r st = (SigningFailure, st) \<and>
         \<not> succeeded (authHandler signFunc now now' r st) \<and>
         succeeded (authHandler working later later' r
                      (snd (authHandler signFunc now now' r st)))"
proof -
  have fail: "authHandler signFunc now now' r st = (SigningFailure, st)"
    using assms(1-3) by (auto simp: authHandler_issued split: prod.splits option.splits)
  have none: "\<not> succeeded (SigningFailure, st)"
    by (simp add: succeeded_def SigningFailure_def token_of_http_Error)
  from assms(2) obtain exp where "keyToUse now r st = Some (k, exp)"
    by (auto simp: issued_def)
  then obtain k2 exp2 where "keyToUse later r st = Some (k2, exp2)"
    by (auto simp: keyToUse_def split: if_splits)
  then have "issued later later' r st = Some (k2, newToken later' k2 exp2)"
    by (simp add: issued_def)
  moreover obtain s where
    "working (PrivateKey k2) jwt_SigningMethodRS256 (newToken later' k2 exp2) = (s, None)"
    using assms(4) by (metis prod.collapse)
  ultimately have "succeeded (authHandler working later later' r st)"
    using assms(1) by (simp add: authHandler_issued succeeded_def token_of_ok)
  with fail none show ?thesis by simp
qed

theorem C8_signing_failure_isolation_witness:
  "Method post_plain = ''POST'' \<and>
   issued 0 1 post_plain st_both = Some (key_a, newToken 1 key_a 3600) \<and>
   snd (sign_fail (PrivateKey key_a) jwt_SigningMethodRS256 (newToken 1 key_a 3600))
     = Some ''sign failure'' \<and>
   authHandler sign_fail 0 1 post_plain st_both = (SigningFailure, st_both) \<and>
   token_of (fst (authHandler sign_kid 2 3 post_plain st_both)) = Some ''kid-a''"
proof -
  have p: "Method post_plain = ''POST''" by (simp add: post_plain_def)
  have i: "issued 0 1 post_plain st_both = Some (key_a, newToken 1 key_a 3600)"
    by (simp add: issued_def keyToUse_def post_plain_def st_both_def Values_Get_def
        time_Unix_def time_Add_def time_Hour_def time_Second_def)
  have f: "snd (sign_fail (PrivateKey key_a) jwt_SigningMethodRS256 (newToken 1 key_a 3600))
             = Some ''sign failure''"
    by (simp add: sign_fail_def)
  have w: "\<forall>pk m t. snd (sign_kid pk m t) = None" by (simp add: sign_kid_def)
  have t: "token_of (fst (authHandler sign_kid 2 3 post_plain st_both)) = Some ''kid-a''"
    by (simp add: fixtures handler_defs)
  show ?thesis
    using p i f t
      C8_signing_failure_isolation
        [where signFunc = sign_fail and working = sign_kid and later = 2 and later' = 3,
         OF p i f w]
    by simp
qed

section \<open>Issuance: the query parameter\<close>



section \<open>Initialization\<close>

lemmas gen_defs = initKeys_def generateKeyPair_def rsa_gen_def uuid_gen_def rsa_broken_def
  rsa_second_fails_def time_Add_def time_Hour_def time_Second_def t_init_def

lemma init_fixture:
  "initKeys (generateKeyPair rsa_gen uuid_gen) t_init t_init st_none 0 = (None, st_both, 4)"
  by (simp add: gen_defs st_none_def st_both_def key_a_def key_e_def)


text \<open>
  C6: whatever \<open>generateKeyPairFunc\<close> is, an error of its first call, or of its second
  call after a first call without error, is the error \<open>initKeys\<close> returns. With
  \<open>generateKeyPair\<close> itself, a failure of either \<open>rsa.GenerateKey\<close> is returned, and
  when both succeed \<open>initKeys\<close> returns no error and leaves exactly two key pairs: the
  active key, expiring 24 hours after the first clock reading (strictly in the future),
  and the expired key, expiring one hour before the second clock reading (strictly in the
  past).
\<close>

theorem C6_initialization:
  "(snd (fst (gen (time_Add ta (24 * time_Hour)) g)) = Some err \<longrightarrow>
      fst (initKeys gen ta tb st g) = Some err) \<and>
   (gen (time_Add ta (24 * time_Hour)) g = ((kp, None), ga) \<and>
    snd (fst (gen (time_Add tb (- time_Hour)) ga)) = Some err \<longrightarrow>
      fst (initKeys gen ta tb st g) = Some err) \<and>
   (rsa g 2048 = (Inl err, ga) \<longrightarrow>
      fst (initKeys (generateKeyPair rsa uuid) ta tb st g) = Some err) \<and>
   (rsa g 2048 = (Inr ka, ga) \<and> uuid ga = (ua, gb) \<and> rsa gb 2048 = (Inl err, gc) \<longrightarrow>
      fst (initKeys (generateKeyPair rsa uuid) ta tb st g) = Some err) \<and>
   (rsa g 2048 = (Inr ka, ga) \<and> uuid ga = (ua, gb) \<and>
    rsa gb 2048 = (Inr kb, gc) \<and> uuid gc = (ub, gd) \<longrightarrow>
      (\<exists>a e. initKeys (generateKeyPair rsa uuid) ta tb st g
                = (None, \<lparr>validKey = Some a, expiredKey = Some e\<rparr>, gd) \<and>
              Kid a = ua \<and> PrivateKey a = ka \<and> PublicKey a = rsa_Public ka \<and>
              ExpiresAt a = ta + 24 * time_Hour \<and> ta < ExpiresAt a \<and>
              Kid e = ub \<and> PrivateKey e = kb \<and> PublicKey e = rsa_Public kb \<and>
              ExpiresAt e = tb - time_Hour \<and> ExpiresAt e < tb))"
proof (intro conjI impI)
  assume "snd (fst (gen (time_Add ta (24 * time_Hour)) g)) = Some err"
  then show "fst (initKeys gen ta tb st g) = Some err"
    by (auto simp: initKeys_def Let_def split: prod.splits)
next
  assume "gen (time_Add ta (24 * time_Hour)) g = ((kp, None), ga) \<and>
    snd (fst (gen (time_Add tb (- time_Hour)) ga)) = Some err"
  then show "fst (initKeys gen ta tb st g) = Some err"
    by (auto simp: initKeys_def Let_def split: prod.splits)
next
  assume "rsa g 2048 = (Inl err, ga)"
  then show "fst (initKeys (generateKeyPair rsa uuid) ta tb st g) = Some err"
    by (simp add: initKeys_def generateKeyPair_def)
next
  assume "rsa g 2048 = (Inr ka, ga) \<and> uuid ga = (ua, gb) \<and> rsa gb 2048 = (Inl err, gc)"
  then show "fst (initKeys (generateKeyPair rsa uuid) ta tb st g) = Some err"
    by (simp add: initKeys_def generateKeyPair_def)
next
  assume h: "rsa g 2048 = (Inr ka, ga) \<and> uuid ga = (ua, gb) \<and>
    rsa gb 2048 = (Inr kb, gc) \<and> uuid gc = (ub, gd)"
  have pos: "(0::int) < time_Hour" by (simp add: time_Hour_def time_Second_def)
  let ?a = "\<lparr>Kid = ua, PrivateKey = ka, PublicKey = rsa_Public ka,
             ExpiresAt = ta + 24 * time_Hour\<rparr>"
  let ?e = "\<lparr>Kid = ub, PrivateKey = kb, PublicKey = rsa_Public kb,
             ExpiresAt = tb - time_Hour\<rparr>"
  from h have "initKeys (generateKeyPair rsa uuid) ta tb st g
                = (None, \<lparr>validKey = Some ?a, expiredKey = Some ?e\<rparr>, gd)"
    by (simp add: initKeys_def generateKeyPair_def time_Add_def)
  with pos show "\<exists>a e. initKeys (generateKeyPair rsa uuid) ta tb st g
                = (None, \<lparr>validKey = Some a, expiredKey = Some e\<rparr>, gd) \<and>
              Kid a = ua \<and> PrivateKey a = ka \<and> PublicKey a = rsa_Public ka \<and>
              ExpiresAt a = ta + 24 * time_Hour \<and> ta < ExpiresAt a \<and>
              Kid e = ub \<and> PrivateKey e = kb \<and> PublicKey e = rsa_Public kb \<and>
              ExpiresAt e = tb - time_Hour \<and> ExpiresAt e < tb"
    by (intro exI [of _ ?a] exI [of _ ?e]) simp
qed

theorem C6_initialization_witness:
  "rsa_gen 0 2048 = (Inr (PrivateKey key_a), 1) \<and> uuid_gen 1 = (''kid-a'', 2) \<and>
   rsa_gen 2 2048 = (Inr (PrivateKey key_e), 3) \<and> uuid_gen 3 = (''kid-e'', 4) \<and>
   initKeys (generateKeyPair rsa_gen uuid_gen) t_init t_init st_none 0 = (None, st_both, 4) \<and>
   (\<exists>a e. initKeys (generateKeyPair rsa_gen uuid_gen) t_init t_init st_none 0
            = (None, \<lparr>validKey = Some a, expiredKey = Some e\<rparr>, 4) \<and>
          ExpiresAt a = t_init + 24 * time_Hour \<and> t_init < ExpiresAt a \<and>
          ExpiresAt e = t_init - time_Hour \<and> ExpiresAt e < t_init) \<and>
   rsa_broken 0 2048 = (Inl ''generation failure'', 1) \<and>
   snd (fst (generateKeyPair rsa_broken uuid_gen (time_Add t_init (24 * time_Hour)) 0))
     = Some ''generation failure'' \<and>
   fst (initKeys (generateKeyPair rsa_broken uuid_gen) t_init t_init st_none 0)
     = Some ''generation failure'' \<and>
   rsa_second_fails 0 2048 = (Inr (PrivateKey key_a), 1) \<and>
   rsa_second_fails 2 2048 = (Inl ''generation failure'', 3) \<and>
   generateKeyPair rsa_second_fails uuid_gen (time_Add t_init (24 * time_Hour)) 0
     = ((Some key_a, None), 2) \<and>
   snd (fst (generateKeyPair rsa_second_fails uuid_gen (time_Add t_init (- time_Hour)) 2))
     = Some ''generation failure'' \<and>
   fst (initKeys (generateKeyPair rsa_second_fails uuid_gen) t_init t_init st_none 0)
     = Some ''generation failure''"
proof -
  have ok: "rsa_gen 0 2048 = (Inr (PrivateKey key_a), 1) \<and> uuid_gen 1 = (''kid-a'', 2) \<and>
      rsa_gen 2 2048 = (Inr (PrivateKey key_e), 3) \<and> uuid_gen 3 = (''kid-e'', 4)"
    by (simp add: rsa_gen_def uuid_gen_def)
  have b: "rsa_broken 0 2048 = (Inl ''generation failure'', 1)"
    by (simp add: rsa_broken_def)
  have b': "snd (fst (generateKeyPair rsa_broken uuid_gen (time_Add t_init (24 * time_Hour)) 0))
     = Some ''generation failure''"
    by (simp add: generateKeyPair_def rsa_broken_def)
  have s: "rsa_second_fails 0 2048 = (Inr (PrivateKey key_a), 1) \<and>
      rsa_second_fails 2 2048 = (Inl ''generation failure'', 3)"
    by (simp add: rsa_second_fails_def)
  have s': "generateKeyPair rsa_second_fails uuid_gen (time_Add t_init (24 * time_Hour)) 0
       = ((Some key_a, None), 2) \<and>
     snd (fst (generateKeyPair rsa_second_fails uuid_gen (time_Add t_init (- time_Hour)) 2))
       = Some ''generation failure''"
    by (simp add: gen_defs key_a_def)
  note th = C6_initialization [where ta = t_init and tb = t_init and st = st_none and g = 0 and uuid = uuid_gen]
  from th [where rsa = rsa_gen and ga = 1 and gb = 2 and gc = 3 and gd = 4
      and ka = "PrivateKey key_a" and kb = "PrivateKey key_e"
      and ua = "''kid-a''" and ub = "''kid-e''"] ok
  have 1: "\<exists>a e. initKeys (generateKeyPair rsa_gen uuid_gen) t_init t_init st_none 0
            = (None, \<lparr>validKey = Some a, expiredKey = Some e\<rparr>, 4) \<and>
          ExpiresAt a = t_init + 24 * time_Hour \<and> t_init < ExpiresAt a \<and>
          ExpiresAt e = t_init - time_Hour \<and> ExpiresAt e < t_init"
    by blast
  from th [where gen = "generateKeyPair rsa_broken uuid_gen" and err = "''generation failure''"] b'
  have 2: "fst (initKeys (generateKeyPair rsa_broken uuid_gen) t_init t_init st_none 0)
     = Some ''generation failure''"
    by blast
  from th [where gen = "generateKeyPair rsa_second_fails uuid_gen" and kp = "Some key_a"
      and ga = 2 and err = "''generation failure''"] s'
  have 3: "fst (initKeys (generateKeyPair rsa_second_fails uuid_gen) t_init t_init st_none 0)
     = Some ''generation failure''"
    by blast
  from ok b b' s s' 1 2 3 init_fixture show ?thesis by simp
qed

section \<open>The discovery document\<close>

lemmas jwks_defs = jwksHandler_def records_of_def keys_of_def marshal_JWKS_def
  marshal_slice_def append_slice_def time_Before_def







text \<open>
  C5: the discovery operation answers with a JSON object whose field \<open>keys\<close> is an
  array, an empty one when no key is publishable. The handler declares \<open>keys\<close> as a nil
  slice and appends to it only for a publishable active key, and \<open>encoding/json\<close>
  writes a nil slice as \<open>null\<close>: with no active key, or with an active key at or past
  its expiry, the answer is the object \<open>{"keys": null}\<close>, not \<open>{"keys": []}\<close>.
\<close>

theorem C5_keys_null_when_empty:
  "fst (jwksHandler 0 get_jwks st_none)
     = \<lparr>Code = 200, Body = JsonDoc (JObject [(''keys'', JNull)])\<rparr> \<and>
   validKey st_both = Some key_a \<and> \<not> time_Before (ExpiresAt key_a) (ExpiresAt key_a) \<and>
   fst (jwksHandler (ExpiresAt key_a) get_jwks st_both)
     = \<lparr>Code = 200, Body = JsonDoc (JObject [(''keys'', JNull)])\<rparr> \<and>
   keys_of (fst (jwksHandler (ExpiresAt key_a) get_jwks st_both)) \<noteq> Some (JArray [])"
  by (simp add: jwks_defs get_jwks_def st_none_def st_both_def key_a_def)

section \<open>The numeric encoding of the discovery record\<close>

subsection \<open>Big-endian bytes\<close>











subsection \<open>Base64 with the URL-safe alphabet, unpadded\<close>



























end
